theory Spec2Isabelle
  imports Main "HOL-Library.Word"
begin

unbundle bit_operations_syntax

section \<open>Data model of src/win/file.c\<close>

text \<open>
  The asynchronous file layer of the library: a file handle (\<open>uv_file_t\<close>), read and
  write requests, the submission functions \<open>uv_file_read_offset\<close> and
  \<open>uv_file_write_offset\<close>, the completion processors and \<open>uv_file_endgame\<close>.

  The OS calls (\<open>ReadFile\<close>, \<open>WriteFile\<close>, \<open>GetOverlappedResult\<close>,
  \<open>CloseHandle\<close>, ...) are not computed: the result of each call is an argument of the
  function that makes it, and the call itself is appended to the loop's \<open>trace\<close>, as
  is every callback invocation. A callback is caller code; the model records that it is
  called and with which arguments, and does not run it.
\<close>

type_synonym DWORD = "32 word"
type_synonym LONGLONG = "64 word"

text \<open>\<open>uv_native_file_t\<close>: a Windows \<open>HANDLE\<close>, with its invalid sentinel.\<close>

datatype HANDLE = INVALID_HANDLE_VALUE | Native nat

text \<open>
  The bits of \<open>handle->flags\<close> that file.c tests and sets. \<open>flags |= F\<close> is
  \<open>insert F\<close>, \<open>flags & F\<close> is \<open>F \<in> flags\<close>.
\<close>

datatype uv_handle_flag =
    UV_HANDLE_BOUND
  | UV_HANDLE_SHUTTING
  | UV_HANDLE_SHUT
  | UV_HANDLE_CLOSING
  | UV_HANDLE_CLOSED

datatype uv_handle_type = UV_UNKNOWN_HANDLE | UV_FILE

datatype uv_req_type = UV_UNKNOWN_REQ | UV_READ | UV_WRITE

text \<open>
  The loop's error value. A system error carries the OS error number that
  \<open>uv_set_sys_error\<close> was given (its translation table is not part of file.c).
\<close>

datatype uv_err_code = UV_OK | UV_ENOTSUP | UV_ESYS DWORD

datatype uv_offset_disposition = UV_START | UV_CURRENT | UV_END

text \<open>
  \<open>uv_buf_t\<close>: a pointer and a length. The length is the Windows \<open>ULONG\<close> that
  \<open>ReadFile\<close> and \<open>WriteFile\<close> take as their byte count.
\<close>

record uv_buf_t =
  base :: nat
  len :: DWORD

record OVERLAPPED =
  Offset :: DWORD
  OffsetHigh :: DWORD

text \<open>
  \<open>uv_read_t\<close> and \<open>uv_write_t\<close> have the same fields as far as file.c uses them.
  A callback is a function pointer: \<open>None\<close> is the null pointer. The array \<open>bufs\<close>
  and its count \<open>bufcnt\<close> are one list. The back pointer \<open>req->handle\<close> is left
  out: every function here works on one handle.
\<close>

record uv_req_t =
  req_type :: uv_req_type
  cb :: "nat option"
  bufs :: "uv_buf_t list"
  overlapped :: OVERLAPPED
  queued_bytes :: int
  error :: uv_err_code

text \<open>
  \<open>uv_file_t\<close>. The three pending counters and the two queue sizes are declared in
  uv.h, which is not among the sources; they are mathematical integers here: an
  increment does not wrap, and a decrement below zero shows as a negative value. The
  cursor \<open>file_pointer\<close> is the 64-bit \<open>LARGE_INTEGER\<close>, and its additions wrap.
\<close>

record uv_file_t =
  handle_type :: uv_handle_type
  handle :: HANDLE
  flags :: "uv_handle_flag set"
  file_pointer :: LONGLONG
  reqs_pending :: int
  read_reqs_pending :: int
  write_reqs_pending :: int
  read_queue_size :: int
  write_queue_size :: int
  close_cb :: "nat option"

text \<open>
  What the layer does to the outside: OS calls issued and callbacks invoked, in order.
  The read callback is \<open>void (*)(uv_read_t* req, ssize_t nread, uv_buf_t buf)\<close>: its
  second argument is the value of the \<open>ssize_t\<close> parameter, an integer.
\<close>

datatype effect =
    Call_ReadFile HANDLE uv_buf_t OVERLAPPED
  | Call_WriteFile HANDLE uv_buf_t OVERLAPPED
  | Call_CloseHandle HANDLE
  | Call_close_cb nat uv_file_t
  | Call_read_cb nat uv_req_t int uv_buf_t
  | Call_write_cb nat uv_req_t int

text \<open>The loop (\<open>LOOP\<close>), the global counters and the keep-alive reference count.\<close>

record uv_loop =
  last_error :: uv_err_code
  uv_refs :: int
  file_init_counter :: int
  trace :: "effect list"

datatype fatal = Assertion_failed | Invalid_read

section \<open>Collaborators that are not in file.c\<close>

definition uv_set_error :: "uv_err_code \<Rightarrow> uv_loop \<Rightarrow> uv_loop" where
  "uv_set_error e loop = loop\<lparr>last_error := e\<rparr>"

definition uv_set_sys_error :: "DWORD \<Rightarrow> uv_loop \<Rightarrow> uv_loop" where
  "uv_set_sys_error sys_errno loop = loop\<lparr>last_error := UV_ESYS sys_errno\<rparr>"


text \<open>
  Modelled from the spec: \<open>uv_unref\<close> releases the handle's hold on the loop's keep-alive
  reference.
\<close>

definition uv_unref :: "uv_loop \<Rightarrow> uv_loop" where
  "uv_unref loop = loop\<lparr>uv_refs := uv_refs loop - 1\<rparr>"

text \<open>
  Modelled from the spec: \<open>uv_req_init\<close> initialises the generic request fields.
\<close>

definition uv_req_init :: "uv_req_t \<Rightarrow> uv_req_t" where
  "uv_req_init req = req\<lparr>req_type := UV_UNKNOWN_REQ, error := UV_OK\<rparr>"

text \<open>
  Modelled from the spec: \<open>uv_count_bufs\<close> is the buffer utility; the queued bytes of a
  request are the length of its buffers.
\<close>

definition uv_count_bufs :: "uv_buf_t list \<Rightarrow> int" where
  "uv_count_bufs bs = sum_list (map (\<lambda>b. uint (len b)) bs)"

text \<open>
  Modelled from the spec: the macro \<open>DECREASE_PENDING_REQ_COUNT\<close> of internal.h
  decrements the handle's total pending counter.
\<close>

definition DECREASE_PENDING_REQ_COUNT :: "uv_file_t \<Rightarrow> uv_file_t" where
  "DECREASE_PENDING_REQ_COUNT h = h\<lparr>reqs_pending := reqs_pending h - 1\<rparr>"

definition ERROR_IO_PENDING :: DWORD where
  "ERROR_IO_PENDING = 997"

section \<open>Initialisation\<close>



section \<open>The endgame\<close>

definition close_file :: "uv_file_t \<Rightarrow> uv_loop \<Rightarrow> uv_file_t \<times> uv_loop" where
  "close_file file loop =
     (file\<lparr>handle := INVALID_HANDLE_VALUE,
           flags := insert UV_HANDLE_SHUT (flags file)\<rparr>,
      loop\<lparr>trace := trace loop @ [Call_CloseHandle (handle file)]\<rparr>)"

text \<open>The guard of the first block of \<open>uv_file_endgame\<close> (lines 52 to 54).\<close>

definition shutdown_guard :: "uv_file_t \<Rightarrow> bool" where
  "shutdown_guard h \<longleftrightarrow>
     UV_HANDLE_SHUTTING \<in> flags h \<and> UV_HANDLE_SHUT \<notin> flags h \<and> write_reqs_pending h = 0"

text \<open>The first block of \<open>uv_file_endgame\<close> (lines 52 to 57): the graceful shutdown step.\<close>

definition endgame_shutdown_step :: "uv_file_t \<Rightarrow> uv_loop \<Rightarrow> uv_file_t \<times> uv_loop" where
  "endgame_shutdown_step h loop =
     (if shutdown_guard h
      then (case close_file h loop of
              (h', loop') \<Rightarrow> (h'\<lparr>reqs_pending := reqs_pending h' - 1\<rparr>, loop'))
      else (h, loop))"

text \<open>The guard of the second block (lines 59 and 60).\<close>

definition teardown_guard :: "uv_file_t \<Rightarrow> bool" where
  "teardown_guard h \<longleftrightarrow> UV_HANDLE_CLOSING \<in> flags h \<and> reqs_pending h = 0"

text \<open>
  The second block of \<open>uv_file_endgame\<close> (lines 59 to 69): the final teardown step.
  A failed \<open>assert\<close> aborts the process: \<open>Inl\<close>, with the state at that moment.
  The close callback is passed the handle.
\<close>

definition endgame_teardown_step ::
  "uv_file_t \<Rightarrow> uv_loop \<Rightarrow> fatal \<times> uv_file_t \<times> uv_loop + uv_file_t \<times> uv_loop" where
  "endgame_teardown_step h loop =
     (if teardown_guard h
      then (if UV_HANDLE_CLOSED \<in> flags h then Inl (Assertion_failed, h, loop)
            else let h' = h\<lparr>flags := insert UV_HANDLE_CLOSED (flags h)\<rparr>;
                     loop' = (case close_cb h' of
                                Some f \<Rightarrow> loop\<lparr>trace := trace loop @ [Call_close_cb f h']\<rparr>
                              | None \<Rightarrow> loop)
                 in Inr (h', uv_unref loop'))
      else Inr (h, loop))"

definition uv_file_endgame ::
  "uv_file_t \<Rightarrow> uv_loop \<Rightarrow> fatal \<times> uv_file_t \<times> uv_loop + uv_file_t \<times> uv_loop" where
  "uv_file_endgame h loop =
     (case endgame_shutdown_step h loop of (h', loop') \<Rightarrow> endgame_teardown_step h' loop')"

section \<open>Submission\<close>

text \<open>
  The \<open>switch (disposition)\<close> of both submission functions (lines 95 to 106 and 178
  to 189): the absolute offset, or \<open>None\<close> where the code sets \<open>UV_ENOTSUP\<close> and
  returns. \<open>offset\<close> is the \<open>ssize_t\<close> argument as the 64-bit value assigned to
  \<open>true_offset.QuadPart\<close>.
\<close>

definition resolve_offset ::
  "uv_offset_disposition \<Rightarrow> LONGLONG \<Rightarrow> uv_file_t \<Rightarrow> LONGLONG option" where
  "resolve_offset disposition offset file =
     (case disposition of
        UV_START \<Rightarrow> Some offset
      | UV_CURRENT \<Rightarrow> Some (file_pointer file + offset)
      | UV_END \<Rightarrow> None)"

text \<open>
  \<open>memset(&req->overlapped, 0, ..)\<close> and the two assignments of \<open>LowPart\<close> and
  \<open>HighPart\<close>.
\<close>

definition set_overlapped :: "LONGLONG \<Rightarrow> OVERLAPPED" where
  "set_overlapped true_offset =
     \<lparr>Offset = ucast true_offset, OffsetHigh = ucast (drop_bit 32 true_offset)\<rparr>"

text \<open>The absolute byte offset that an \<open>OVERLAPPED\<close> tells the OS.\<close>

definition absolute_offset :: "OVERLAPPED \<Rightarrow> LONGLONG" where
  "absolute_offset ov = word_cat (OffsetHigh ov) (Offset ov)"

type_synonym submit_state = "uv_req_t \<times> uv_file_t \<times> uv_loop"

text \<open>
  \<open>uv_file_read_offset\<close>. \<open>os = (result, e)\<close> is what \<open>ReadFile\<close> returns and what
  \<open>GetLastError()\<close> is after it. \<open>Inl (err, ..)\<close> is the return value \<open>-1\<close> with the
  loop's last error \<open>err\<close>; \<open>Inr\<close> is the return value \<open>0\<close>. Both carry the request,
  the handle and the loop as the call leaves them.
\<close>

definition uv_file_read_offset ::
  "uv_req_t \<Rightarrow> uv_file_t \<Rightarrow> LONGLONG \<Rightarrow> uv_offset_disposition \<Rightarrow> uv_buf_t list
     \<Rightarrow> nat option \<Rightarrow> bool \<times> DWORD \<Rightarrow> uv_loop
     \<Rightarrow> uv_err_code \<times> submit_state + submit_state" where
  "uv_file_read_offset req file offset disposition bs read_cb os loop =
     (if int (length bs) \<noteq> 1
      then Inl (UV_ENOTSUP, req, file, uv_set_error UV_ENOTSUP loop)
      else
        (case resolve_offset disposition offset file of
           None \<Rightarrow> Inl (UV_ENOTSUP, req, file, uv_set_error UV_ENOTSUP loop)
         | Some true_offset \<Rightarrow>
             let req1 = (uv_req_init req)\<lparr>req_type := UV_READ, cb := read_cb, bufs := bs,
                          overlapped := set_overlapped true_offset\<rparr>;
                 file1 = file\<lparr>file_pointer := file_pointer file + ucast (len (hd bs))\<rparr>;
                 loop1 = loop\<lparr>trace := trace loop
                            @ [Call_ReadFile (handle file1) (hd bs) (overlapped req1)]\<rparr>
             in if \<not> fst os \<and> snd os \<noteq> ERROR_IO_PENDING
                then Inl (UV_ESYS (snd os), req1, file1, uv_set_sys_error (snd os) loop1)
                else
                  let req2 = (if fst os then req1\<lparr>queued_bytes := 0\<rparr>
                              else req1\<lparr>queued_bytes := uv_count_bufs bs\<rparr>);
                      file2 = (if fst os then file1
                               else file1\<lparr>read_queue_size :=
                                      read_queue_size file1 + queued_bytes req2\<rparr>)
                  in Inr (req2,
                          file2\<lparr>reqs_pending := reqs_pending file2 + 1,
                                read_reqs_pending := read_reqs_pending file2 + 1\<rparr>,
                          loop1)))"

definition uv_file_read ::
  "uv_req_t \<Rightarrow> uv_file_t \<Rightarrow> uv_buf_t list \<Rightarrow> nat option \<Rightarrow> bool \<times> DWORD \<Rightarrow> uv_loop
     \<Rightarrow> uv_err_code \<times> submit_state + submit_state" where
  "uv_file_read req file bs read_cb os loop =
     uv_file_read_offset req file 0 UV_CURRENT bs read_cb os loop"

text \<open>\<open>uv_file_write_offset\<close>, with \<open>WriteFile\<close> in the place of \<open>ReadFile\<close>.\<close>

definition uv_file_write_offset ::
  "uv_req_t \<Rightarrow> uv_file_t \<Rightarrow> LONGLONG \<Rightarrow> uv_offset_disposition \<Rightarrow> uv_buf_t list
     \<Rightarrow> nat option \<Rightarrow> bool \<times> DWORD \<Rightarrow> uv_loop
     \<Rightarrow> uv_err_code \<times> submit_state + submit_state" where
  "uv_file_write_offset req file offset disposition bs write_cb os loop =
     (if int (length bs) \<noteq> 1
      then Inl (UV_ENOTSUP, req, file, uv_set_error UV_ENOTSUP loop)
      else
        (case resolve_offset disposition offset file of
           None \<Rightarrow> Inl (UV_ENOTSUP, req, file, uv_set_error UV_ENOTSUP loop)
         | Some true_offset \<Rightarrow>
             let req1 = (uv_req_init req)\<lparr>req_type := UV_WRITE, cb := write_cb, bufs := bs,
                          overlapped := set_overlapped true_offset\<rparr>;
                 file1 = file\<lparr>file_pointer := file_pointer file + ucast (len (hd bs))\<rparr>;
                 loop1 = loop\<lparr>trace := trace loop
                            @ [Call_WriteFile (handle file1) (hd bs) (overlapped req1)]\<rparr>
             in if \<not> fst os \<and> snd os \<noteq> ERROR_IO_PENDING
                then Inl (UV_ESYS (snd os), req1, file1, uv_set_sys_error (snd os) loop1)
                else
                  let req2 = (if fst os then req1\<lparr>queued_bytes := 0\<rparr>
                              else req1\<lparr>queued_bytes := uv_count_bufs bs\<rparr>);
                      file2 = (if fst os then file1
                               else file1\<lparr>write_queue_size :=
                                      write_queue_size file1 + queued_bytes req2\<rparr>)
                  in Inr (req2,
                          file2\<lparr>reqs_pending := reqs_pending file2 + 1,
                                write_reqs_pending := write_reqs_pending file2 + 1\<rparr>,
                          loop1)))"

definition uv_file_write ::
  "uv_req_t \<Rightarrow> uv_file_t \<Rightarrow> uv_buf_t list \<Rightarrow> nat option \<Rightarrow> bool \<times> DWORD \<Rightarrow> uv_loop
     \<Rightarrow> uv_err_code \<times> submit_state + submit_state" where
  "uv_file_write req file bs write_cb os loop =
     uv_file_write_offset req file 0 UV_CURRENT bs write_cb os loop"

text \<open>What a submission returned, and the state it left.\<close>

definition failure :: "'e \<times> 's + 's \<Rightarrow> 'e option" where
  "failure r = (case r of Inl (e, _) \<Rightarrow> Some e | Inr _ \<Rightarrow> None)"

definition state_of :: "'e \<times> 's + 's \<Rightarrow> 's" where
  "state_of r = (case r of Inl (_, s) \<Rightarrow> s | Inr s \<Rightarrow> s)"

section \<open>The completion processors\<close>

text \<open>
  Lines 232 to 234 and 251 to 253: \<open>gor\<close> is the outcome of \<open>GetOverlappedResult\<close>,
  \<open>Some n\<close> when it succeeds and stores \<open>n\<close>, \<open>None\<close> when it fails; then
  \<open>bytes_transferred = -1\<close>, a \<open>DWORD\<close>.
\<close>

definition bytes_transferred :: "DWORD option \<Rightarrow> DWORD" where
  "bytes_transferred gor = (case gor of Some n \<Rightarrow> n | None \<Rightarrow> - 1)"

text \<open>
  \<open>uv_process_file_write_req\<close>. The status passed to the callback is \<open>UV_OK\<close>, which
  is 0, or \<open>-1\<close>. \<open>bytes_transferred\<close> is assigned and not read again.
\<close>

definition uv_process_file_write_req ::
  "uv_file_t \<Rightarrow> uv_req_t \<Rightarrow> DWORD option \<Rightarrow> uv_loop
     \<Rightarrow> fatal \<times> uv_file_t \<times> uv_loop + uv_file_t \<times> uv_loop" where
  "uv_process_file_write_req h req gor loop =
     (if handle_type h \<noteq> UV_FILE then Inl (Assertion_failed, h, loop)
      else
        let h1 = h\<lparr>write_queue_size := write_queue_size h - queued_bytes req\<rparr>;
            n = bytes_transferred gor;
            loop1 = (case cb req of
                       Some f \<Rightarrow>
                         let l = loop\<lparr>last_error := error req\<rparr>
                         in l\<lparr>trace := trace l
                                @ [Call_write_cb f req (if last_error l = UV_OK then 0 else - 1)]\<rparr>
                     | None \<Rightarrow> loop);
            h2 = h1\<lparr>write_reqs_pending := write_reqs_pending h1 - 1\<rparr>
        in Inr (DECREASE_PENDING_REQ_COUNT h2, loop1))"

text \<open>
  The call \<open>(req->cb)(req, bytes_transferred, req->bufs[0])\<close> converts the
  \<open>DWORD\<close> to the callback's \<open>ssize_t\<close> parameter. \<open>ssize_t\<close> is a signed integer
  as wide as a pointer, and its typedef is not among the sources: its width in bits is a
  parameter, 32 for a 32-bit build and 64 for a 64-bit build. The conversion keeps the
  unsigned value where it fits and wraps to two's complement where it does not.
\<close>

definition ssize_t_of_DWORD :: "nat \<Rightarrow> DWORD \<Rightarrow> int" where
  "ssize_t_of_DWORD bits n = (uint n + 2 ^ (bits - 1)) mod 2 ^ bits - 2 ^ (bits - 1)"

text \<open>
  \<open>uv_process_file_read_req\<close>, for a build whose \<open>ssize_t\<close> has \<open>bits\<close> bits. The
  callback is passed \<open>req->bufs[0]\<close>; a request with no buffer to read there is
  \<open>Invalid_read\<close>.
\<close>

definition uv_process_file_read_req ::
  "nat \<Rightarrow> uv_file_t \<Rightarrow> uv_req_t \<Rightarrow> DWORD option \<Rightarrow> uv_loop
     \<Rightarrow> fatal \<times> uv_file_t \<times> uv_loop + uv_file_t \<times> uv_loop" where
  "uv_process_file_read_req bits h req gor loop =
     (if handle_type h \<noteq> UV_FILE then Inl (Assertion_failed, h, loop)
      else
        let h1 = h\<lparr>read_queue_size := read_queue_size h - queued_bytes req\<rparr>;
            n = bytes_transferred gor
        in (case cb req of
              Some f \<Rightarrow>
                (case bufs req of
                   [] \<Rightarrow> Inl (Invalid_read, h1, loop\<lparr>last_error := error req\<rparr>)
                 | b # _ \<Rightarrow>
                     let l = loop\<lparr>last_error := error req\<rparr>;
                         loop1 = l\<lparr>trace := trace l
                                   @ [Call_read_cb f req (ssize_t_of_DWORD bits n) b]\<rparr>;
                         h2 = h1\<lparr>read_reqs_pending := read_reqs_pending h1 - 1\<rparr>
                     in Inr (DECREASE_PENDING_REQ_COUNT h2, loop1))
            | None \<Rightarrow>
                let h2 = h1\<lparr>read_reqs_pending := read_reqs_pending h1 - 1\<rparr>
                in Inr (DECREASE_PENDING_REQ_COUNT h2, loop)))"

section \<open>A handle, its caller and the loop\<close>

text \<open>
  One call of a submission function, as the caller makes it: the direction, the request
  memory handed in, the arguments, and what the OS call will answer.
\<close>

datatype direction = Read | Write

record submission =
  sub_dir :: direction
  sub_req :: uv_req_t
  sub_offset :: LONGLONG
  sub_disposition :: uv_offset_disposition
  sub_bufs :: "uv_buf_t list"
  sub_cb :: "nat option"
  sub_os :: "bool \<times> DWORD"

definition submit ::
  "submission \<Rightarrow> uv_file_t \<Rightarrow> uv_loop \<Rightarrow> uv_err_code \<times> submit_state + submit_state" where
  "submit sb file loop =
     (case sub_dir sb of
        Read \<Rightarrow> uv_file_read_offset (sub_req sb) file (sub_offset sb) (sub_disposition sb)
                  (sub_bufs sb) (sub_cb sb) (sub_os sb) loop
      | Write \<Rightarrow> uv_file_write_offset (sub_req sb) file (sub_offset sb) (sub_disposition sb)
                  (sub_bufs sb) (sub_cb sb) (sub_os sb) loop)"

text \<open>
  Submissions issued back to back on one handle, with nothing in between: each call
  works on the handle as the call before left it, whatever that call returned. The
  result lists the requests as the calls populated them, in the order of the calls.
\<close>

fun submit_all ::
  "submission list \<Rightarrow> uv_file_t \<Rightarrow> uv_loop \<Rightarrow> uv_req_t list \<times> uv_file_t \<times> uv_loop" where
  "submit_all [] file loop = ([], file, loop)"
| "submit_all (sb # sbs) file loop =
     (case state_of (submit sb file loop) of
        (req, file', loop') \<Rightarrow>
          (case submit_all sbs file' loop' of
             (reqs, file'', loop'') \<Rightarrow> (req # reqs, file'', loop'')))"

text \<open>The length of the single buffer of a submission, as added to the 64-bit cursor.\<close>

definition buf_len :: "submission \<Rightarrow> LONGLONG" where
  "buf_len sb = ucast (len (hd (sub_bufs sb)))"

















section \<open>Concrete handles and requests\<close>

definition ex_buf :: "nat \<Rightarrow> uv_buf_t" where
  "ex_buf n = \<lparr>base = 4096, len = word_of_nat n\<rparr>"

definition ex_req :: uv_req_t where
  "ex_req = \<lparr>req_type = UV_UNKNOWN_REQ, cb = None, bufs = [],
             overlapped = \<lparr>Offset = 0, OffsetHigh = 0\<rparr>, queued_bytes = 0, error = UV_OK\<rparr>"

definition ex_file :: uv_file_t where
  "ex_file = \<lparr>handle_type = UV_FILE, handle = Native 7, flags = {UV_HANDLE_BOUND},
              file_pointer = 100, reqs_pending = 0, read_reqs_pending = 0,
              write_reqs_pending = 0, read_queue_size = 0, write_queue_size = 0,
              close_cb = None\<rparr>"

definition ex_loop :: uv_loop where
  "ex_loop = \<lparr>last_error = UV_OK, uv_refs = 1, file_init_counter = 1, trace = []\<rparr>"

definition ex_sub ::
  "direction \<Rightarrow> LONGLONG \<Rightarrow> uv_offset_disposition \<Rightarrow> nat \<Rightarrow> bool \<times> DWORD \<Rightarrow> submission" where
  "ex_sub d off disp n os =
     \<lparr>sub_dir = d, sub_req = ex_req, sub_offset = off, sub_disposition = disp,
      sub_bufs = [ex_buf n], sub_cb = Some 1, sub_os = os\<rparr>"





text \<open>Three sequential submissions: a read left pending, a write that fails hard, a read.\<close>

definition ex_burst :: "submission list" where
  "ex_burst =
     [ex_sub Read 0 UV_CURRENT 16 (False, 997),
      ex_sub Write 0 UV_CURRENT 8 (False, 5),
      ex_sub Read 3 UV_CURRENT 4 (True, 0)]"

text \<open>
  A handle with a shutdown asked for, no write and one read in flight: the total counts
  the read and the shutdown.
\<close>

definition ex_shutting :: uv_file_t where
  "ex_shutting = ex_file\<lparr>flags := {UV_HANDLE_BOUND, UV_HANDLE_SHUTTING},
                         reqs_pending := 2, read_reqs_pending := 1\<rparr>"




text \<open>A read request with a callback, as a submission left it.\<close>

definition ex_read_req :: uv_req_t where
  "ex_read_req = ex_req\<lparr>req_type := UV_READ, cb := Some 3, bufs := [ex_buf 8]\<rparr>"

text \<open>A handle with one read and one write in flight, the read queued.\<close>

definition ex_busy :: uv_file_t where
  "ex_busy = ex_file\<lparr>reqs_pending := 2, read_reqs_pending := 1, write_reqs_pending := 1,
                     read_queue_size := 16\<rparr>"

section \<open>Offsets and the cursor\<close>

lemma absolute_offset_set_overlapped: "absolute_offset (set_overlapped w) = w"
  unfolding absolute_offset_def set_overlapped_def
  by (rule bit_word_eqI) (auto simp add: bit_simps)

lemma read_offset_populated:
  assumes "length bs = 1" and "resolve_offset disposition offset h = Some t"
    and "state_of (uv_file_read_offset req h offset disposition bs c os l) = (req', h', l')"
  shows "overlapped req' = set_overlapped t"
    and "file_pointer h' = file_pointer h + ucast (len (hd bs))"
  using assms
  by (auto simp add: uv_file_read_offset_def state_of_def Let_def split: if_splits)

lemma write_offset_populated:
  assumes "length bs = 1" and "resolve_offset disposition offset h = Some t"
    and "state_of (uv_file_write_offset req h offset disposition bs c os l) = (req', h', l')"
  shows "overlapped req' = set_overlapped t"
    and "file_pointer h' = file_pointer h + ucast (len (hd bs))"
  using assms
  by (auto simp add: uv_file_write_offset_def state_of_def Let_def split: if_splits)

lemma submit_current:
  assumes "sub_disposition sb = UV_CURRENT" and "length (sub_bufs sb) = 1"
    and "state_of (submit sb h l) = (req', h', l')"
  shows "absolute_offset (overlapped req') = file_pointer h + sub_offset sb"
    and "file_pointer h' = file_pointer h + buf_len sb"
proof -
  have c: "resolve_offset UV_CURRENT (sub_offset sb) h = Some (file_pointer h + sub_offset sb)"
    by (simp add: resolve_offset_def)
  have "overlapped req' = set_overlapped (file_pointer h + sub_offset sb)
      \<and> file_pointer h' = file_pointer h + ucast (len (hd (sub_bufs sb)))"
  proof (cases "sub_dir sb")
    case Read
    then have "state_of (uv_file_read_offset (sub_req sb) h (sub_offset sb) UV_CURRENT
                 (sub_bufs sb) (sub_cb sb) (sub_os sb) l) = (req', h', l')"
      using assms(1,3) by (simp add: submit_def)
    then show ?thesis
      using read_offset_populated [OF assms(2) c] by blast
  next
    case Write
    then have "state_of (uv_file_write_offset (sub_req sb) h (sub_offset sb) UV_CURRENT
                 (sub_bufs sb) (sub_cb sb) (sub_os sb) l) = (req', h', l')"
      using assms(1,3) by (simp add: submit_def)
    then show ?thesis
      using write_offset_populated [OF assms(2) c] by blast
  qed
  then show "absolute_offset (overlapped req') = file_pointer h + sub_offset sb"
    and "file_pointer h' = file_pointer h + buf_len sb"
    by (simp_all add: absolute_offset_set_overlapped buf_len_def)
qed

lemma submit_all_Cons:
  assumes "state_of (submit sb h l) = (req', h', l')"
  shows "submit_all (sb # sbs) h l
           = (req' # fst (submit_all sbs h' l'), snd (submit_all sbs h' l'))"
  using assms by (simp split: prod.splits)

lemma length_submit_all: "length (fst (submit_all sbs h l)) = length sbs"
proof (induction sbs arbitrary: h l)
  case Nil
  then show ?case by simp
next
  case (Cons sb sbs)
  obtain req' h' l' where st: "state_of (submit sb h l) = (req', h', l')"
    by (cases "state_of (submit sb h l)") auto
  show ?case
    unfolding submit_all_Cons [OF st] using Cons.IH by simp
qed

lemma submit_all_cursor:
  assumes "\<forall>sb \<in> set sbs. sub_disposition sb = UV_CURRENT \<and> length (sub_bufs sb) = 1"
  shows "file_pointer (fst (snd (submit_all sbs h l)))
           = file_pointer h + sum_list (map buf_len sbs)"
  using assms
proof (induction sbs arbitrary: h l)
  case Nil
  then show ?case by simp
next
  case (Cons sb sbs)
  obtain req' h' l' where st: "state_of (submit sb h l) = (req', h', l')"
    by (cases "state_of (submit sb h l)") auto
  have fp: "file_pointer h' = file_pointer h + buf_len sb"
    using submit_current(2) [OF _ _ st] Cons.prems by simp
  have "file_pointer (fst (snd (submit_all sbs h' l')))
          = file_pointer h' + sum_list (map buf_len sbs)"
    using Cons.IH Cons.prems by simp
  then show ?case
    unfolding submit_all_Cons [OF st] using fp by (simp add: add.assoc)
qed

lemma submit_all_nth:
  assumes "\<forall>sb \<in> set sbs. sub_disposition sb = UV_CURRENT \<and> length (sub_bufs sb) = 1"
    and "i < length sbs"
  shows "absolute_offset (overlapped (fst (submit_all sbs h l) ! i))
           = file_pointer h + sum_list (map buf_len (take i sbs)) + sub_offset (sbs ! i)"
  using assms
proof (induction sbs arbitrary: h l i)
  case Nil
  then show ?case by simp
next
  case (Cons sb sbs)
  obtain req' h' l' where st: "state_of (submit sb h l) = (req', h', l')"
    by (cases "state_of (submit sb h l)") auto
  have hd_ok: "sub_disposition sb = UV_CURRENT" "length (sub_bufs sb) = 1"
    using Cons.prems(1) by simp_all
  show ?case
  proof (cases i)
    case 0
    then show ?thesis
      unfolding submit_all_Cons [OF st] using submit_current(1) [OF hd_ok st] by simp
  next
    case (Suc j)
    have "absolute_offset (overlapped (fst (submit_all sbs h' l') ! j))
            = file_pointer h' + sum_list (map buf_len (take j sbs)) + sub_offset (sbs ! j)"
      using Cons.IH [of j h' l'] Cons.prems Suc by simp
    then show ?thesis
      unfolding submit_all_Cons [OF st] using submit_current(2) [OF hd_ok st] Suc
      by (simp add: add.assoc)
  qed
qed

text \<open>
  C1 (cursor reservation), as the code has it. For single-buffer submissions with
  disposition \<open>UV_CURRENT\<close> issued back to back on one handle, the absolute offset of
  submission \<open>i\<close> is the handle's initial cursor, plus the buffer lengths of the
  submissions before it, plus the offset that submission \<open>i\<close> itself asks for, in
  64-bit arithmetic. With a requested offset of 0, as \<open>uv_file_read\<close> and
  \<open>uv_file_write\<close> pass it, this is the prefix sum. The answer of the OS call
  (\<open>sub_os\<close>: completed, pending or failed) has no part in it: the cursor has moved by
  the buffer length whatever the call answers, and after all submissions it is the
  initial cursor plus all the lengths.
\<close>

theorem cursor_reservation:
  assumes "\<forall>sb \<in> set sbs. sub_disposition sb = UV_CURRENT \<and> length (sub_bufs sb) = 1"
  shows "(\<forall>i < length sbs.
            absolute_offset (overlapped (fst (submit_all sbs h l) ! i))
              = file_pointer h + sum_list (map buf_len (take i sbs)) + sub_offset (sbs ! i))
       \<and> ((\<forall>sb \<in> set sbs. sub_offset sb = 0) \<longrightarrow>
            (\<forall>i < length sbs.
               absolute_offset (overlapped (fst (submit_all sbs h l) ! i))
                 = file_pointer h + sum_list (map buf_len (take i sbs))))
       \<and> length (fst (submit_all sbs h l)) = length sbs
       \<and> file_pointer (fst (snd (submit_all sbs h l)))
           = file_pointer h + sum_list (map buf_len sbs)
       \<and> uv_file_read req h bs c os l = uv_file_read_offset req h 0 UV_CURRENT bs c os l
       \<and> uv_file_write req h bs c os l = uv_file_write_offset req h 0 UV_CURRENT bs c os l"
proof -
  have wrappers:
    "uv_file_read req h bs c os l = uv_file_read_offset req h 0 UV_CURRENT bs c os l"
    "uv_file_write req h bs c os l = uv_file_write_offset req h 0 UV_CURRENT bs c os l"
    by (simp_all add: uv_file_read_def uv_file_write_def)
  have nth: "absolute_offset (overlapped (fst (submit_all sbs h l) ! i))
      = file_pointer h + sum_list (map buf_len (take i sbs)) + sub_offset (sbs ! i)"
    if "i < length sbs" for i
    using submit_all_nth [OF assms that] .
  have zero: "absolute_offset (overlapped (fst (submit_all sbs h l) ! i))
      = file_pointer h + sum_list (map buf_len (take i sbs))"
    if "i < length sbs" and "\<forall>sb \<in> set sbs. sub_offset sb = 0" for i
    using nth [OF that(1)] that by simp
  show ?thesis
    using nth zero submit_all_cursor [OF assms] length_submit_all wrappers by blast
qed

theorem cursor_reservation_witness:
  "list_all (\<lambda>sb. sub_disposition sb = UV_CURRENT \<and> length (sub_bufs sb) = 1) ex_burst
 \<and> absolute_offset (overlapped (fst (submit_all ex_burst ex_file ex_loop) ! 0)) = 100
 \<and> absolute_offset (overlapped (fst (submit_all ex_burst ex_file ex_loop) ! 1)) = 116
 \<and> absolute_offset (overlapped (fst (submit_all ex_burst ex_file ex_loop) ! 2)) = 127
 \<and> file_pointer (fst (snd (submit_all ex_burst ex_file ex_loop))) = 128"
proof -
  have hyp: "\<forall>sb \<in> set ex_burst. sub_disposition sb = UV_CURRENT \<and> length (sub_bufs sb) = 1"
    by (simp add: ex_burst_def ex_sub_def)
  have n: "length ex_burst = 3"
    by (simp add: ex_burst_def)
  have offs: "sub_offset (ex_burst ! 0) = 0" "sub_offset (ex_burst ! Suc 0) = 0"
    "sub_offset (ex_burst ! 2) = 3"
    by (simp_all add: ex_burst_def ex_sub_def)
  have sums: "sum_list (map buf_len (take 0 ex_burst)) = 0"
    "sum_list (map buf_len (take (Suc 0) ex_burst)) = 16"
    "sum_list (map buf_len (take 2 ex_burst)) = 24"
    "sum_list (map buf_len ex_burst) = 28"
    by (simp_all add: ex_burst_def ex_sub_def ex_buf_def buf_len_def)
  have fp: "file_pointer ex_file = 100"
    by (simp add: ex_file_def)
  note t = cursor_reservation [OF hyp, of ex_file ex_loop]
  have "absolute_offset (overlapped (fst (submit_all ex_burst ex_file ex_loop) ! 0)) = 100"
    "absolute_offset (overlapped (fst (submit_all ex_burst ex_file ex_loop) ! 1)) = 116"
    "absolute_offset (overlapped (fst (submit_all ex_burst ex_file ex_loop) ! 2)) = 127"
    "file_pointer (fst (snd (submit_all ex_burst ex_file ex_loop))) = 128"
    using t n by (simp_all add: offs sums fp)
  then show ?thesis
    using hyp by (simp add: list_all_iff)
qed

text \<open>
  The claim as written leaves the requested offset out. One read of 10 bytes with
  disposition \<open>UV_CURRENT\<close> and requested offset 5, on a handle whose cursor is 100:
  the absolute offset is 105, and the initial cursor plus the lengths of the
  submissions before it (there is none) is 100.
\<close>

theorem cursor_reservation_counterexample:
  "absolute_offset (overlapped
      (fst (submit_all [ex_sub Read 5 UV_CURRENT 10 (True, 0)] ex_file ex_loop) ! 0)) = 105
 \<and> file_pointer ex_file
      + sum_list (map buf_len (take 0 [ex_sub Read 5 UV_CURRENT 10 (True, 0)])) = 100
 \<and> absolute_offset (overlapped
      (fst (submit_all [ex_sub Read 5 UV_CURRENT 10 (True, 0)] ex_file ex_loop) ! 0))
    \<noteq> file_pointer ex_file
      + sum_list (map buf_len (take 0 [ex_sub Read 5 UV_CURRENT 10 (True, 0)]))"
  by (simp add: ex_sub_def ex_file_def ex_loop_def ex_req_def ex_buf_def submit_def
      uv_file_read_offset_def resolve_offset_def state_of_def Let_def
      absolute_offset_set_overlapped uv_req_init_def)

text \<open>
  C5 (offset resolution). A submission with one buffer and disposition \<open>UV_START\<close>
  is given the requested offset itself as its absolute offset, whatever 64-bit value it
  is; with \<open>UV_CURRENT\<close> it is given the cursor plus the requested offset. With
  \<open>UV_END\<close> the call fails with \<open>UV_ENOTSUP\<close> and returns the request and the handle
  as they were.
\<close>

theorem offset_resolution:
  "(length bs = 1 \<longrightarrow>
       absolute_offset (overlapped (fst (state_of
            (uv_file_read_offset req file offset UV_START bs c os loop)))) = offset
     \<and> absolute_offset (overlapped (fst (state_of
            (uv_file_write_offset req file offset UV_START bs c os loop)))) = offset
     \<and> absolute_offset (overlapped (fst (state_of
            (uv_file_read_offset req file offset UV_CURRENT bs c os loop))))
           = file_pointer file + offset
     \<and> absolute_offset (overlapped (fst (state_of
            (uv_file_write_offset req file offset UV_CURRENT bs c os loop))))
           = file_pointer file + offset)
 \<and> uv_file_read_offset req file offset UV_END bs c os loop
       = Inl (UV_ENOTSUP, req, file, loop\<lparr>last_error := UV_ENOTSUP\<rparr>)
 \<and> uv_file_write_offset req file offset UV_END bs c os loop
       = Inl (UV_ENOTSUP, req, file, loop\<lparr>last_error := UV_ENOTSUP\<rparr>)"
proof -
  have s: "resolve_offset UV_START offset file = Some offset"
    and c: "resolve_offset UV_CURRENT offset file = Some (file_pointer file + offset)"
    and e: "resolve_offset UV_END offset file = None"
    by (simp_all add: resolve_offset_def)
  have end_r: "uv_file_read_offset req file offset UV_END bs c os loop
           = Inl (UV_ENOTSUP, req, file, loop\<lparr>last_error := UV_ENOTSUP\<rparr>)"
    using e by (simp add: uv_file_read_offset_def uv_set_error_def)
  have end_w: "uv_file_write_offset req file offset UV_END bs c os loop
           = Inl (UV_ENOTSUP, req, file, loop\<lparr>last_error := UV_ENOTSUP\<rparr>)"
    using e by (simp add: uv_file_write_offset_def uv_set_error_def)
  have ov_r: "overlapped (fst (state_of (uv_file_read_offset req file offset d bs c os loop)))
      = set_overlapped t"
    if "length bs = 1" "resolve_offset d offset file = Some t" for d t
    using read_offset_populated(1) [OF that] by (metis prod.collapse)
  have ov_w: "overlapped (fst (state_of (uv_file_write_offset req file offset d bs c os loop)))
      = set_overlapped t"
    if "length bs = 1" "resolve_offset d offset file = Some t" for d t
    using write_offset_populated(1) [OF that] by (metis prod.collapse)
  show ?thesis
    using end_r end_w ov_r [OF _ s] ov_r [OF _ c] ov_w [OF _ s] ov_w [OF _ c]
    by (simp add: absolute_offset_set_overlapped)
qed

theorem offset_resolution_witness:
  "length [ex_buf 8] = 1
 \<and> absolute_offset (overlapped (fst (state_of
      (uv_file_read_offset ex_req ex_file (- 5) UV_START [ex_buf 8] (Some 1) (True, 0) ex_loop))))
     = - 5
 \<and> absolute_offset (overlapped (fst (state_of
      (uv_file_write_offset ex_req ex_file 7 UV_CURRENT [ex_buf 8] (Some 1) (False, 997) ex_loop))))
     = 107
 \<and> uv_file_read_offset ex_req ex_file 7 UV_END [ex_buf 8] (Some 1) (True, 0) ex_loop
     = Inl (UV_ENOTSUP, ex_req, ex_file, ex_loop\<lparr>last_error := UV_ENOTSUP\<rparr>)"
  using offset_resolution [of "[ex_buf 8]" ex_req ex_file "- 5" "Some 1" "(True, 0)" ex_loop]
    offset_resolution [of "[ex_buf 8]" ex_req ex_file 7 "Some 1" "(False, 997)" ex_loop]
    offset_resolution [of "[ex_buf 8]" ex_req ex_file 7 "Some 1" "(True, 0)" ex_loop]
  by (simp add: ex_file_def)

section \<open>Rejected and failed submissions\<close>

text \<open>
  C6 (single-buffer enforcement). A read or write submission with no buffer, or with
  two or more, fails with \<open>UV_ENOTSUP\<close>; the request and the handle (its cursor, its
  pending counters and its queue sizes among the rest) are returned as they were, and
  only the loop's last error is set.
\<close>

theorem single_buffer_enforcement:
  assumes "length bs = 0 \<or> 2 \<le> length bs"
  shows "uv_file_read_offset req file offset disposition bs read_cb os loop
           = Inl (UV_ENOTSUP, req, file, loop\<lparr>last_error := UV_ENOTSUP\<rparr>)
       \<and> uv_file_write_offset req file offset disposition bs write_cb os loop
           = Inl (UV_ENOTSUP, req, file, loop\<lparr>last_error := UV_ENOTSUP\<rparr>)"
  using assms by (auto simp add: uv_file_read_offset_def uv_file_write_offset_def uv_set_error_def)

theorem single_buffer_enforcement_witness:
  "uv_file_read_offset ex_req ex_file 0 UV_START [] (Some 1) (True, 0) ex_loop
           = Inl (UV_ENOTSUP, ex_req, ex_file, ex_loop\<lparr>last_error := UV_ENOTSUP\<rparr>)
   \<and> uv_file_write_offset ex_req ex_file 0 UV_START [ex_buf 8, ex_buf 8] (Some 1) (True, 0) ex_loop
           = Inl (UV_ENOTSUP, ex_req, ex_file, ex_loop\<lparr>last_error := UV_ENOTSUP\<rparr>)"
  using single_buffer_enforcement [of "[]" ex_req ex_file 0 UV_START "Some 1" "(True, 0)" ex_loop]
    single_buffer_enforcement [of "[ex_buf 8, ex_buf 8]" ex_req ex_file 0 UV_START "Some 1" "(True, 0)" ex_loop "Some 1"]
  by simp

text \<open>
  C7 (hard failure of the OS call). When \<open>ReadFile\<close> or \<open>WriteFile\<close> returns
  false and the last error is not \<open>ERROR_IO_PENDING\<close>, the submission fails with the
  system error; the pending counters and the queue sizes are as before, and the cursor
  stays moved by the buffer length.
\<close>

theorem hard_failure_asymmetry:
  assumes "length bs = 1" and "disposition \<noteq> UV_END"
    and "\<not> fst os" and "snd os \<noteq> ERROR_IO_PENDING"
    and "r = uv_file_read_offset req file offset disposition bs cb_r os loop
         \<or> r = uv_file_write_offset req file offset disposition bs cb_w os loop"
  shows "failure r = Some (UV_ESYS (snd os))
       \<and> (case state_of r of (req', file', loop') \<Rightarrow>
            last_error loop' = UV_ESYS (snd os)
          \<and> reqs_pending file' = reqs_pending file
          \<and> read_reqs_pending file' = read_reqs_pending file
          \<and> write_reqs_pending file' = write_reqs_pending file
          \<and> read_queue_size file' = read_queue_size file
          \<and> write_queue_size file' = write_queue_size file
          \<and> file_pointer file' = file_pointer file + ucast (len (hd bs)))"
  using assms
  by (cases disposition)
     (auto simp add: uv_file_read_offset_def uv_file_write_offset_def resolve_offset_def
        failure_def state_of_def uv_set_sys_error_def Let_def)

theorem hard_failure_asymmetry_witness:
  "length [ex_buf 16] = 1 \<and> UV_CURRENT \<noteq> UV_END
 \<and> \<not> fst (False, 5 :: DWORD) \<and> snd (False, 5 :: DWORD) \<noteq> ERROR_IO_PENDING
 \<and> failure (uv_file_read_offset ex_req ex_file 0 UV_CURRENT [ex_buf 16] (Some 1) (False, 5) ex_loop)
     = Some (UV_ESYS 5)
 \<and> file_pointer (fst (snd (state_of
      (uv_file_read_offset ex_req ex_file 0 UV_CURRENT [ex_buf 16] (Some 1) (False, 5) ex_loop))))
     = 116
 \<and> reqs_pending (fst (snd (state_of
      (uv_file_read_offset ex_req ex_file 0 UV_CURRENT [ex_buf 16] (Some 1) (False, 5) ex_loop))))
     = 0
 \<and> failure (uv_file_write_offset ex_req ex_file 0 UV_CURRENT [ex_buf 16] (Some 1) (False, 5) ex_loop)
     = Some (UV_ESYS 5)
 \<and> file_pointer (fst (snd (state_of
      (uv_file_write_offset ex_req ex_file 0 UV_CURRENT [ex_buf 16] (Some 1) (False, 5) ex_loop))))
     = 116"
proof -
  have h: "length [ex_buf 16] = 1" "UV_CURRENT \<noteq> UV_END"
    "\<not> fst (False, 5 :: DWORD)" "snd (False, 5 :: DWORD) \<noteq> ERROR_IO_PENDING"
    by (simp_all add: ERROR_IO_PENDING_def)
  let ?r = "uv_file_read_offset ex_req ex_file 0 UV_CURRENT [ex_buf 16] (Some 1) (False, 5) ex_loop"
  let ?w = "uv_file_write_offset ex_req ex_file 0 UV_CURRENT [ex_buf 16] (Some 1) (False, 5) ex_loop"
  have "?r = ?r \<or> ?r = ?w" and "?w = ?r \<or> ?w = ?w"
    by simp_all
  then show ?thesis
    using hard_failure_asymmetry [OF h, of ?r ex_req ex_file 0 "Some 1" ex_loop "Some 1"]
      hard_failure_asymmetry [OF h, of ?w ex_req ex_file 0 "Some 1" ex_loop "Some 1"] h
    by (simp add: case_prod_unfold ex_file_def ex_buf_def)
qed

section \<open>The completion processors\<close>

text \<open>
  What holds of a failed completion query on every build. \<open>bytes_transferred\<close> is
  \<open>-1\<close>, the \<open>DWORD\<close> with all 32 bits set. A read request with a callback has this
  \<open>DWORD\<close>, converted to \<open>ssize_t\<close>, passed to its callback. There is no other
  channel: the read processor does what it does for a query that succeeds with that
  count, and the write processor, whose callback is passed a status only, does the same
  whatever the query answers.
\<close>

lemma uint_all_bits_set: "uint (- 1 :: DWORD) = 4294967295"
  by (simp add: unsigned_minus_1_eq_mask mask_eq_exp_minus_1)

lemma query_failure_single_channel:
  "bytes_transferred None = - 1
 \<and> (\<forall>n < 32. bit (bytes_transferred None) n)
 \<and> (handle_type h = UV_FILE \<longrightarrow> cb req = Some f \<longrightarrow> bufs req = b # bs \<longrightarrow>
      (\<exists>h'. uv_process_file_read_req w h req None loop =
         Inr (h', loop\<lparr>last_error := error req,
                trace := trace loop @ [Call_read_cb f req (ssize_t_of_DWORD w (- 1)) b]\<rparr>)))
 \<and> uv_process_file_read_req w h req None loop
     = uv_process_file_read_req w h req (Some (- 1)) loop
 \<and> uv_process_file_write_req h req None loop = uv_process_file_write_req h req (Some n) loop"
  by (auto simp add: bytes_transferred_def uv_process_file_read_req_def
        uv_process_file_write_req_def Let_def bit_simps)

text \<open>
  Where \<open>ssize_t\<close> has 64 bits the conversion keeps the unsigned value of the
  \<open>DWORD\<close>, which is never negative; where it has 32 bits the conversion gives the
  signed value.
\<close>

lemma ssize_t_of_DWORD_64: "ssize_t_of_DWORD 64 n = uint n"
proof -
  have "uint n < 2 ^ 32"
    using uint_lt2p [of n] by simp
  moreover have "0 \<le> uint n"
    by simp
  ultimately show ?thesis
    by (simp add: ssize_t_of_DWORD_def)
qed

lemma ssize_t_of_DWORD_64_nonneg: "0 \<le> ssize_t_of_DWORD 64 n"
  by (simp add: ssize_t_of_DWORD_64)

lemma ssize_t_of_DWORD_32: "ssize_t_of_DWORD 32 n = sint n"
  by (simp add: ssize_t_of_DWORD_def sint_uint signed_take_bit_eq_take_bit_shift
        take_bit_eq_mod)

text \<open>
  C8 (a failed completion query), at a read request with a callback whose query fails.
  The code assigns \<open>-1\<close> to the \<open>DWORD\<close> \<open>bytes_transferred\<close> and passes it to the
  callback's \<open>ssize_t\<close> parameter. On a build whose \<open>ssize_t\<close> has 64 bits the callback
  is passed \<open>nread = 4294967295\<close>: the \<open>DWORD\<close> zero-extended, which is not \<open>-1\<close> and
  not the \<open>ssize_t\<close> with all bits set. On a build whose \<open>ssize_t\<close> has 32 bits the
  same call passes \<open>-1\<close>.
\<close>

theorem completion_query_failure_nread:
  "handle_type ex_busy = UV_FILE
 \<and> bytes_transferred None = - 1
 \<and> trace (snd (state_of (uv_process_file_read_req 64 ex_busy ex_read_req None ex_loop)))
     = [Call_read_cb 3 ex_read_req 4294967295 (ex_buf 8)]
 \<and> (4294967295 :: int) \<noteq> - 1
 \<and> trace (snd (state_of (uv_process_file_read_req 32 ex_busy ex_read_req None ex_loop)))
     = [Call_read_cb 3 ex_read_req (- 1) (ex_buf 8)]"
  by (simp add: uv_process_file_read_req_def bytes_transferred_def ssize_t_of_DWORD_def
      uint_all_bits_set DECREASE_PENDING_REQ_COUNT_def state_of_def Let_def
      ex_busy_def ex_file_def ex_loop_def ex_read_req_def ex_req_def)

text \<open>
  C9 (a null completion callback). For a request whose callback is null, on a handle of
  type \<open>UV_FILE\<close>, each processor takes the request's queued bytes off its queue size
  and one off its direction counter and off the total, and leaves the loop as it was: no
  callback is called. A processor that adds to the trace had a callback to call.
\<close>

theorem null_callback_tolerated:
  assumes "handle_type h = UV_FILE"
  shows "(cb req = None \<longrightarrow>
            uv_process_file_read_req w h req gor loop =
              Inr (h\<lparr>read_queue_size := read_queue_size h - queued_bytes req,
                     read_reqs_pending := read_reqs_pending h - 1,
                     reqs_pending := reqs_pending h - 1\<rparr>, loop)
          \<and> uv_process_file_write_req h req gor loop =
              Inr (h\<lparr>write_queue_size := write_queue_size h - queued_bytes req,
                     write_reqs_pending := write_reqs_pending h - 1,
                     reqs_pending := reqs_pending h - 1\<rparr>, loop))
       \<and> (trace (snd (state_of (uv_process_file_read_req w h req gor loop))) \<noteq> trace loop
            \<longrightarrow> cb req \<noteq> None)
       \<and> (trace (snd (state_of (uv_process_file_write_req h req gor loop))) \<noteq> trace loop
            \<longrightarrow> cb req \<noteq> None)"
  using assms
  by (auto simp add: uv_process_file_read_req_def uv_process_file_write_req_def
        DECREASE_PENDING_REQ_COUNT_def state_of_def Let_def split: option.splits list.splits)

theorem null_callback_tolerated_witness:
  "handle_type ex_busy = UV_FILE \<and> cb (ex_req\<lparr>queued_bytes := 16\<rparr>) = None
 \<and> uv_process_file_read_req 64 ex_busy (ex_req\<lparr>queued_bytes := 16\<rparr>) (Some 16) ex_loop
     = Inr (ex_busy\<lparr>read_queue_size := 0, read_reqs_pending := 0, reqs_pending := 1\<rparr>, ex_loop)
 \<and> uv_process_file_write_req ex_busy ex_req None ex_loop
     = Inr (ex_busy\<lparr>write_queue_size := 0, write_reqs_pending := 0, reqs_pending := 1\<rparr>, ex_loop)"
proof -
  have h: "handle_type ex_busy = UV_FILE"
    by (simp add: ex_busy_def ex_file_def)
  have c: "cb (ex_req\<lparr>queued_bytes := 16\<rparr>) = None" "cb ex_req = None"
    by (simp_all add: ex_req_def)
  show ?thesis
    using null_callback_tolerated [OF h, where req = "ex_req\<lparr>queued_bytes := 16\<rparr>"
          and gor = "Some 16" and loop = ex_loop and w = 64]
      null_callback_tolerated [OF h, where req = ex_req and gor = None and loop = ex_loop
          and w = 64] h c
    by (simp add: ex_busy_def ex_file_def ex_req_def)
qed

section \<open>The endgame\<close>

text \<open>
  C4 (the graceful shutdown step). When its guard holds (shutting set, shut not set, no
  write pending), the step calls \<open>CloseHandle\<close> on the native handle, sets the handle
  to \<open>INVALID_HANDLE_VALUE\<close>, sets shut and takes one off the total; nothing else
  changes. When the guard does not hold the step changes nothing, and the whole endgame
  changes nothing when the guard of the teardown does not hold either. After the step its
  guard does not hold, so that a second run of the step changes nothing.
\<close>

theorem graceful_shutdown_step:
  "(shutdown_guard h \<longrightarrow>
      endgame_shutdown_step h loop =
        (h\<lparr>handle := INVALID_HANDLE_VALUE, flags := insert UV_HANDLE_SHUT (flags h),
           reqs_pending := reqs_pending h - 1\<rparr>,
         loop\<lparr>trace := trace loop @ [Call_CloseHandle (handle h)]\<rparr>))
 \<and> (\<not> shutdown_guard h \<longrightarrow> endgame_shutdown_step h loop = (h, loop))
 \<and> (\<not> shutdown_guard h \<and> \<not> teardown_guard h \<longrightarrow> uv_file_endgame h loop = Inr (h, loop))
 \<and> (case endgame_shutdown_step h loop of
       (h', loop') \<Rightarrow> \<not> shutdown_guard h' \<and> endgame_shutdown_step h' loop' = (h', loop'))"
  by (auto simp add: endgame_shutdown_step_def close_file_def shutdown_guard_def
        uv_file_endgame_def endgame_teardown_step_def)

theorem graceful_shutdown_step_witness:
  "shutdown_guard ex_shutting
 \<and> handle (fst (endgame_shutdown_step ex_shutting ex_loop)) = INVALID_HANDLE_VALUE
 \<and> UV_HANDLE_SHUT \<in> flags (fst (endgame_shutdown_step ex_shutting ex_loop))
 \<and> reqs_pending (fst (endgame_shutdown_step ex_shutting ex_loop)) = 1
 \<and> trace (snd (endgame_shutdown_step ex_shutting ex_loop)) = [Call_CloseHandle (Native 7)]
 \<and> \<not> shutdown_guard ex_busy \<and> \<not> teardown_guard ex_busy
 \<and> endgame_shutdown_step ex_busy ex_loop = (ex_busy, ex_loop)
 \<and> uv_file_endgame ex_busy ex_loop = Inr (ex_busy, ex_loop)"
proof -
  have g: "shutdown_guard ex_shutting"
    by (simp add: shutdown_guard_def ex_shutting_def ex_file_def)
  have n: "\<not> shutdown_guard ex_busy" "\<not> teardown_guard ex_busy"
    by (simp_all add: shutdown_guard_def teardown_guard_def ex_busy_def ex_file_def)
  show ?thesis
    using graceful_shutdown_step [of ex_shutting ex_loop]
      graceful_shutdown_step [of ex_busy ex_loop] g n
    by (simp add: ex_shutting_def ex_file_def ex_loop_def)
qed

text \<open>
  C10 (the shutdown guard does not look at pending reads). On a handle with shutting
  set, shut not set and no write pending, the endgame calls \<open>CloseHandle\<close> and sets
  the native handle to \<open>INVALID_HANDLE_VALUE\<close> also when reads are pending: the read
  counter is as it was, above zero, on a handle that is no longer valid.
\<close>

theorem shutdown_ignores_pending_reads:
  assumes "UV_HANDLE_SHUTTING \<in> flags h" and "UV_HANDLE_SHUT \<notin> flags h"
    and "write_reqs_pending h = 0" and "0 < read_reqs_pending h"
  shows "case state_of (uv_file_endgame h loop) of
           (h', loop') \<Rightarrow>
             handle h' = INVALID_HANDLE_VALUE
           \<and> Call_CloseHandle (handle h) \<in> set (trace loop')
           \<and> UV_HANDLE_SHUT \<in> flags h'
           \<and> read_reqs_pending h' = read_reqs_pending h
           \<and> 0 < read_reqs_pending h'"
  using assms
  by (auto simp add: uv_file_endgame_def endgame_shutdown_step_def close_file_def
        shutdown_guard_def endgame_teardown_step_def state_of_def uv_unref_def Let_def
        split: option.splits)

theorem shutdown_ignores_pending_reads_witness:
  "UV_HANDLE_SHUTTING \<in> flags ex_shutting \<and> UV_HANDLE_SHUT \<notin> flags ex_shutting
 \<and> write_reqs_pending ex_shutting = 0 \<and> 0 < read_reqs_pending ex_shutting
 \<and> handle (fst (state_of (uv_file_endgame ex_shutting ex_loop))) = INVALID_HANDLE_VALUE
 \<and> read_reqs_pending (fst (state_of (uv_file_endgame ex_shutting ex_loop))) = 1
 \<and> Call_CloseHandle (Native 7) \<in> set (trace (snd (state_of (uv_file_endgame ex_shutting ex_loop))))"
proof -
  have h: "UV_HANDLE_SHUTTING \<in> flags ex_shutting" "UV_HANDLE_SHUT \<notin> flags ex_shutting"
    "write_reqs_pending ex_shutting = 0" "0 < read_reqs_pending ex_shutting"
    by (simp_all add: ex_shutting_def ex_file_def)
  have v: "read_reqs_pending ex_shutting = 1" "handle ex_shutting = Native 7"
    by (simp_all add: ex_shutting_def ex_file_def)
  show ?thesis
    using shutdown_ignores_pending_reads [OF h, of ex_loop] h v
    by (simp add: case_prod_unfold)
qed

section \<open>Runs\<close>

subsection \<open>Counting requests\<close>




subsection \<open>What each function leaves alone\<close>












subsection \<open>The endgame\<close>















end
